theory Spec2Isabelle
  imports Main "HOL-Library.Sublist" "HOL-Library.Multiset"
begin

section \<open>Text and Python helpers\<close>

text \<open>
  The script is Python 2. Text values (command-line arguments, database columns) are
  modelled as HOL strings, one \<^typ>\<open>char\<close> per character; the model covers ASCII text,
  on which the script's \<^verbatim>\<open>decode('utf-8')\<close> and \<^verbatim>\<open>encode('utf-8')\<close> coercions
  change the Python type only and are the identity on the characters.
  Every exception the modelled code can raise is a value of \<open>error\<close>.
\<close>

datatype error = AttributeError | UnboundLocalError | ValueError | TypeError | SqlError | DateError

text \<open>Python slice bounds: a negative index counts from the end, and both ends are clamped.\<close>

definition py_bound :: "nat \<Rightarrow> int \<Rightarrow> nat" where
  "py_bound n i = (if i < 0 then nat (max 0 (int n + i)) else min n (nat i))"

definition py_slice :: "'a list \<Rightarrow> int \<Rightarrow> int \<Rightarrow> 'a list" where
  "py_slice xs i j =
     (let a = py_bound (length xs) i; b = py_bound (length xs) j
      in take (b - a) (drop a xs))"

definition py_slice_from :: "'a list \<Rightarrow> int \<Rightarrow> 'a list" where
  "py_slice_from xs i = drop (py_bound (length xs) i) xs"

text \<open>\<^verbatim>\<open>sep.join(xs)\<close>\<close>

fun py_join :: "string \<Rightarrow> string list \<Rightarrow> string" where
  "py_join sep [] = []"
| "py_join sep [x] = x"
| "py_join sep (x # y # ys) = x @ sep @ py_join sep (y # ys)"

text \<open>\<^verbatim>\<open>max(xs)\<close> of a list raises \<^verbatim>\<open>ValueError\<close> on the empty list.\<close>

fun py_max :: "nat list \<Rightarrow> error + nat" where
  "py_max [] = Inl ValueError"
| "py_max (x # xs) = Inr (fold max xs x)"

section \<open>Phone numbers\<close>

text \<open>The character class \<^verbatim>\<open>\d\<close> of a Python 2 byte-string pattern: the ten ASCII digits.\<close>

definition is_digit :: "char \<Rightarrow> bool" where
  "is_digit c = (c \<in> set ''0123456789'')"

text \<open>\<^verbatim>\<open>re.sub('[^\d]', '', phone)\<close>\<close>

definition strip :: "string \<Rightarrow> string" where
  "strip phone = filter is_digit phone"

text \<open>\<^verbatim>\<open>"(%s) %s-%s" % (ph[-10:-7], ph[-7:-4], ph[-4:])\<close>\<close>

definition us_format :: "string \<Rightarrow> string" where
  "us_format ph =
     ''('' @ py_slice ph (-10) (-7) @ '') '' @ py_slice ph (-7) (-4) @ ''-'' @ py_slice_from ph (-4)"

text \<open>
  \<^verbatim>\<open>format_phone\<close>: the variable \<^verbatim>\<open>phone\<close> is reassigned in three branches only; when
  none applies the function returns its argument.
\<close>

definition format_phone :: "string \<Rightarrow> string" where
  "format_phone phone =
     (let ph = strip phone in
      if length ph < 10 then ph
      else if length ph = 10 then us_format ph
      else if length ph = 11 \<and> ph ! 0 = CHR ''1'' then us_format ph
      else phone)"

definition valid_phone :: "string \<Rightarrow> bool" where
  "valid_phone phone = (let stripped = strip phone in if length stripped \<ge> 5 then True else False)"

text \<open>
  \<^verbatim>\<open>re.search('^([^=]+)=([^=]+)$', a)\<close>: a match needs exactly one \<^verbatim>\<open>=\<close> with a
  non-empty side before and after it; the two groups are those sides. \<open>None\<close> is no match.
\<close>

definition alias_match :: "string \<Rightarrow> (string \<times> string) option" where
  "alias_match a =
     (let number = takeWhile (\<lambda>c. c \<noteq> CHR ''='') a
      in case drop (length number) a of
           [] \<Rightarrow> None
         | _ # name \<Rightarrow>
             if number \<noteq> [] \<and> name \<noteq> [] \<and> CHR ''='' \<notin> set name
             then Some (number, name) else None)"

text \<open>
  \<^verbatim>\<open>validate_aliases\<close> and \<^verbatim>\<open>validate_numbers\<close>: an absent (\<open>None\<close>) or empty
  option list is accepted; the first offending entry raises \<^verbatim>\<open>ValueError\<close>.
\<close>

fun validate_alias_list :: "string list \<Rightarrow> error + unit" where
  "validate_alias_list [] = Inr ()"
| "validate_alias_list (a # as) =
     (case alias_match a of
        None \<Rightarrow> Inl ValueError
      | Some (number, name) \<Rightarrow>
          if \<not> valid_phone number then Inl ValueError else validate_alias_list as)"

definition validate_aliases :: "string list option \<Rightarrow> error + unit" where
  "validate_aliases aliases =
     (case aliases of None \<Rightarrow> Inr () | Some as \<Rightarrow> validate_alias_list as)"

fun validate_number_list :: "string list \<Rightarrow> error + unit" where
  "validate_number_list [] = Inr ()"
| "validate_number_list (n # ns) =
     (if \<not> valid_phone n then Inl ValueError else validate_number_list ns)"

definition validate_numbers :: "string list option \<Rightarrow> error + unit" where
  "validate_numbers numbers =
     (case numbers of None \<Rightarrow> Inr () | Some ns \<Rightarrow> validate_number_list ns)"

section \<open>The message store\<close>

text \<open>
  The working copy of the SMS database, which the script reaches through the global
  \<^verbatim>\<open>COPY_DB\<close>, is passed explicitly. The table \<^verbatim>\<open>group_member\<close> holds
  (address, group id) rows; a \<^verbatim>\<open>message\<close> row has the six columns the script selects.
  The columns \<^verbatim>\<open>address\<close> and \<^verbatim>\<open>text\<close> of a message may be NULL (\<open>None\<close>).
  \<open>variable_limit\<close> is the largest number of host parameters (\<^verbatim>\<open>?\<close>) the SQLite library
  behind the store accepts in one statement (999 or 32766 in the usual builds, never less
  than 1, so that the one-parameter statement of \<^verbatim>\<open>query_group_ids\<close> always runs).
\<close>

record message_row =
  m_rowid :: int
  m_date :: int
  m_address :: "string option"
  m_text :: "string option"
  m_flags :: int
  m_group_id :: int

record database =
  group_member :: "(string \<times> int) list"
  message :: "message_row list"
  variable_limit :: nat

subsection \<open>The LIKE operator\<close>

text \<open>
  SQLite compares ASCII letters without regard to case; in a pattern \<^verbatim>\<open>%\<close> matches any
  run of characters and \<^verbatim>\<open>_\<close> any single one.
\<close>

definition sql_upper :: "char \<Rightarrow> char" where
  "sql_upper c =
     (let n = (of_char c :: nat) in if 97 \<le> n \<and> n \<le> 122 then char_of (n - 32) else c)"

fun sql_like :: "string \<Rightarrow> string \<Rightarrow> bool" where
  "sql_like [] s = (s = [])"
| "sql_like (p # ps) [] = (if p = CHR ''%'' then sql_like ps [] else False)"
| "sql_like (p # ps) (c # cs) =
     (if p = CHR ''%'' then sql_like ps (c # cs) \<or> sql_like (p # ps) cs
      else (p = CHR ''_'' \<or> sql_upper p = sql_upper c) \<and> sql_like ps cs)"

section \<open>Resolving conversation groups\<close>

text \<open>
  \<^verbatim>\<open>query_group_ids\<close> runs
  \<^verbatim>\<open>select group_id from group_member where STRIP(address) like ?\<close> with the parameter
  \<^verbatim>\<open>'%' + ph[-10:]\<close> and returns the fetched group ids as a list, or \<open>None\<close> when
  no row was fetched.
\<close>

definition query_group_ids :: "database \<Rightarrow> string \<Rightarrow> int list option" where
  "query_group_ids db phone =
     (let ph = strip phone;
          param = CHR ''%'' # py_slice_from ph (-10);
          result = filter (\<lambda>r. sql_like param (strip (fst r))) (group_member db)
      in if result \<noteq> [] then Some (map snd result) else None)"

text \<open>The group ids of a result of \<open>query_group_ids\<close>, as a set.\<close>

definition group_set :: "int list option \<Rightarrow> int set" where
  "group_set r = (case r of None \<Rightarrow> {} | Some group_ids \<Rightarrow> set group_ids)"

text \<open>The inner loop of \<^verbatim>\<open>alias_map\<close>: \<^verbatim>\<open>result[gid] = name\<close> for each group id.\<close>

fun assign_all :: "(int \<rightharpoonup> string) \<Rightarrow> int list \<Rightarrow> string \<Rightarrow> (int \<rightharpoonup> string)" where
  "assign_all result [] name = result"
| "assign_all result (gid # gids) name = assign_all (result(gid \<mapsto> name)) gids name"

text \<open>
  The outer loop of \<^verbatim>\<open>alias_map\<close>. An alias the pattern does not match leaves
  \<^verbatim>\<open>m = None\<close>, and \<^verbatim>\<open>m.group(1)\<close> raises \<^verbatim>\<open>AttributeError\<close>.
\<close>

fun alias_loop :: "database \<Rightarrow> (int \<rightharpoonup> string) \<Rightarrow> string list \<Rightarrow> error + (int \<rightharpoonup> string)" where
  "alias_loop db result [] = Inr result"
| "alias_loop db result (a # as) =
     (case alias_match a of
        None \<Rightarrow> Inl AttributeError
      | Some (number, name) \<Rightarrow>
          (case query_group_ids db number of
             None \<Rightarrow> alias_loop db result as
           | Some group_ids \<Rightarrow> alias_loop db (assign_all result group_ids name) as))"

definition alias_map :: "database \<Rightarrow> string list option \<Rightarrow> error + (int \<rightharpoonup> string)" where
  "alias_map db aliases =
     (case aliases of None \<Rightarrow> Inr Map.empty | Some as \<Rightarrow> alias_loop db Map.empty as)"

section \<open>Planning and running the message query\<close>

definition question_marks_placeholder :: "nat \<Rightarrow> string" where
  "question_marks_placeholder num = py_join '', '' (replicate num ''?'')"

definition select_all :: string where
  "select_all = ''select rowid, date, address, text, flags, group_id from message order by rowid''"

definition select_in :: "string \<Rightarrow> string" where
  "select_in qmarks =
     ''select rowid, date, address, text, flags, group_id from message where group_id in (''
       @ qmarks @ '') order by rowid''"

text \<open>The first loop of \<^verbatim>\<open>build_msg_query\<close>: \<^verbatim>\<open>group_ids.extend(gids)\<close> when a number resolves.\<close>

fun collect_group_ids :: "database \<Rightarrow> int list \<Rightarrow> string list \<Rightarrow> int list" where
  "collect_group_ids db group_ids [] = group_ids"
| "collect_group_ids db group_ids (n # ns) =
     (case query_group_ids db n of
        None \<Rightarrow> collect_group_ids db group_ids ns
      | Some gids \<Rightarrow> collect_group_ids db (group_ids @ gids) ns)"

definition build_msg_query :: "database \<Rightarrow> string list option \<Rightarrow> string \<times> int list" where
  "build_msg_query db numbers =
     (let group_ids = (case numbers of None \<Rightarrow> [] | Some ns \<Rightarrow> collect_group_ids db [] ns)
      in if group_ids \<noteq> []
         then (select_in (question_marks_placeholder (length group_ids)), group_ids)
         else (select_all, []))"

text \<open>
  What the store answers to \<^verbatim>\<open>cur.execute(query, params)\<close> for the two statements the
  script can build: all rows, or the rows whose group id is one of the bound parameters,
  in both cases in ascending order of \<^verbatim>\<open>rowid\<close>. A statement with more parameters
  than the library's limit is refused (\<^verbatim>\<open>too many SQL variables\<close>), and any other
  statement or a wrong number of parameters is an error.
\<close>

definition execute :: "database \<Rightarrow> string \<Rightarrow> int list \<Rightarrow> error + message_row list" where
  "execute db query params =
     (if query = select_all \<and> params = [] then Inr (sort_key m_rowid (message db))
      else if params \<noteq> [] \<and> query = select_in (question_marks_placeholder (length params))
      then (if variable_limit db < length params then Inl SqlError
            else Inr (sort_key m_rowid (filter (\<lambda>r. m_group_id r \<in> set params) (message db))))
      else Inl SqlError)"

section \<open>Classifying rows\<close>

record resolved_message =
  r_date :: string
  r_from :: string
  r_to :: string
  r_text :: string

text \<open>
  \<^verbatim>\<open>convert_address\<close>: \<^verbatim>\<open>from_addr\<close> and \<^verbatim>\<open>to_addr\<close> are bound in the branches for
  the flags 2 and 3 only; with any other flag the \<^verbatim>\<open>return\<close> raises
  \<^verbatim>\<open>UnboundLocalError\<close>. A NULL address makes \<^verbatim>\<open>re.sub\<close> raise \<^verbatim>\<open>TypeError\<close>.
\<close>

definition convert_address :: "message_row \<Rightarrow> string \<Rightarrow> (int \<rightharpoonup> string) \<Rightarrow> error + (string \<times> string)" where
  "convert_address row me aliases =
     (case m_address row of
        None \<Rightarrow> Inl TypeError
      | Some a \<Rightarrow>
          (let address = format_phone a;
               other = (case aliases (m_group_id row) of Some alias \<Rightarrow> alias | None \<Rightarrow> address)
           in if m_flags row = 2 then Inr (other, me)
              else if m_flags row = 3 then Inr (me, other)
              else Inl UnboundLocalError))"

text \<open>Python truth value of a nullable text column: NULL and the empty string are false.\<close>

definition truthy :: "string option \<Rightarrow> bool" where
  "truthy v = (case v of None \<Rightarrow> False | Some s \<Rightarrow> s \<noteq> [])"

definition skip_row :: "message_row \<Rightarrow> bool" where
  "skip_row row =
     (if m_flags row \<notin> {2, 3} then True
      else if \<not> truthy (m_address row) then True
      else if \<not> truthy (m_text row) then True
      else False)"

text \<open>
  \<^verbatim>\<open>convert_date\<close> depends on the local time zone and on \<^verbatim>\<open>strftime\<close>; it is a
  parameter of the model, and \<open>None\<close> stands for the exception it may raise.
  \<open>classify_row\<close> is the body of the loop of \<^verbatim>\<open>main\<close> after the skip check;
  \<^verbatim>\<open>row['text']\<close> is copied as it is (it is never NULL there).
\<close>

definition classify_row ::
  "(int \<Rightarrow> string \<Rightarrow> string option) \<Rightarrow> string \<Rightarrow> string \<Rightarrow> (int \<rightharpoonup> string) \<Rightarrow>
   message_row \<Rightarrow> error + resolved_message" where
  "classify_row convert_date date_format identity aliases row =
     (case convert_date (m_date row) date_format of
        None \<Rightarrow> Inl DateError
      | Some fmt_date \<Rightarrow>
          (case convert_address row identity aliases of
             Inl e \<Rightarrow> Inl e
           | Inr (fmt_from, fmt_to) \<Rightarrow>
               Inr \<lparr>r_date = fmt_date, r_from = fmt_from, r_to = fmt_to,
                    r_text = (case m_text row of Some t \<Rightarrow> t | None \<Rightarrow> [])\<rparr>))"

text \<open>The loop of \<^verbatim>\<open>main\<close> over the cursor, appending to \<^verbatim>\<open>messages\<close>.\<close>

fun classify_rows ::
  "(int \<Rightarrow> string \<Rightarrow> string option) \<Rightarrow> string \<Rightarrow> string \<Rightarrow> (int \<rightharpoonup> string) \<Rightarrow>
   resolved_message list \<Rightarrow> message_row list \<Rightarrow> error + resolved_message list" where
  "classify_rows convert_date date_format identity aliases messages [] = Inr messages"
| "classify_rows convert_date date_format identity aliases messages (row # rows) =
     (if skip_row row then classify_rows convert_date date_format identity aliases messages rows
      else
        (case classify_row convert_date date_format identity aliases row of
           Inl e \<Rightarrow> Inl e
         | Inr msg \<Rightarrow>
             classify_rows convert_date date_format identity aliases (messages @ [msg]) rows))"

text \<open>The part of \<^verbatim>\<open>main\<close> from the alias map to the list of messages.\<close>

definition resolve_messages ::
  "(int \<Rightarrow> string \<Rightarrow> string option) \<Rightarrow> database \<Rightarrow> string list option \<Rightarrow> string list option \<Rightarrow>
   string \<Rightarrow> string \<Rightarrow> error + resolved_message list" where
  "resolve_messages convert_date db alias_args numbers date_format identity =
     (case alias_map db alias_args of
        Inl e \<Rightarrow> Inl e
      | Inr aliases \<Rightarrow>
          (let (query, params) = build_msg_query db numbers
           in case execute db query params of
                Inl e \<Rightarrow> Inl e
              | Inr rows \<Rightarrow> classify_rows convert_date date_format identity aliases [] rows))"

section \<open>The human renderer\<close>

text \<open>The format specifications \<^verbatim>\<open>{0:{1}}\<close> (pad on the right) and \<^verbatim>\<open>{0:>{1}}\<close> (pad on the left).\<close>

definition ljust :: "string \<Rightarrow> nat \<Rightarrow> string" where
  "ljust s w = s @ replicate (w - length s) CHR '' ''"

definition rjust :: "string \<Rightarrow> nat \<Rightarrow> string" where
  "rjust s w = replicate (w - length s) CHR '' '' @ s"

definition human_header :: "nat \<Rightarrow> nat \<Rightarrow> nat \<Rightarrow> string" where
  "human_header date_width from_width to_width =
     ljust ''Date'' date_width @ '' | '' @ ljust ''From'' from_width @ '' | ''
       @ ljust ''To'' to_width @ '' | '' @ ''Text''"

definition human_row :: "nat \<Rightarrow> nat \<Rightarrow> nat \<Rightarrow> resolved_message \<Rightarrow> string" where
  "human_row date_width from_width to_width m =
     ljust (r_date m) date_width @ '' | '' @ rjust (r_from m) from_width @ '' | ''
       @ rjust (r_to m) to_width @ '' | '' @ r_text m"

definition msgs_human :: "resolved_message list \<Rightarrow> bool \<Rightarrow> error + string" where
  "msgs_human messages header =
     (case py_max (map (\<lambda>x. length (r_from x)) messages) of
        Inl e \<Rightarrow> Inl e
      | Inr max_from \<Rightarrow>
     (case py_max (map (\<lambda>x. length (r_to x)) messages) of
        Inl e \<Rightarrow> Inl e
      | Inr max_to \<Rightarrow>
     (case py_max (map (\<lambda>x. length (r_date x)) messages) of
        Inl e \<Rightarrow> Inl e
      | Inr max_date \<Rightarrow>
          (let from_width = max max_from (length ''From'');
               to_width = max max_to (length ''To'');
               date_width = max max_date (length ''Date'');
               msgs = (if header then [human_header date_width from_width to_width] else [])
                        @ map (human_row date_width from_width to_width) messages
                        @ [[]]
           in Inr (py_join [CHR 0x0A] msgs)))))"

section \<open>The csv and json renderers, output\<close>















text \<open>
  The store of the specification's end-to-end example, with the same number stored in three
  forms for group 7 and a second group and message added.
\<close>

definition example_store :: database where
  "example_store =
     \<lparr>group_member = [(''+15555551212'', 7), (''(555) 555-1212'', 7), (''5555551212'', 7),
                      (''555-0100'', 8)],
      message =
        [\<lparr>m_rowid = 2, m_date = 60, m_address = Some ''5550100'', m_text = Some ''yo'',
          m_flags = 3, m_group_id = 8\<rparr>,
         \<lparr>m_rowid = 1, m_date = 0, m_address = Some ''5555551212'', m_text = Some ''hi'',
          m_flags = 2, m_group_id = 7\<rparr>],
      variable_limit = 999\<rparr>"

section \<open>Digits and suffix matching\<close>

lemma strip_digits: "\<forall>c\<in>set d. is_digit c \<Longrightarrow> strip d = d"
  by (simp add: strip_def)

lemma strip_all_digits: "\<forall>c\<in>set (strip p). is_digit c"
  by (simp add: strip_def)

lemma digit_upper: "is_digit p \<Longrightarrow> sql_upper p = p"
  by (auto simp: is_digit_def sql_upper_def)

lemma digit_not_wild: "is_digit p \<Longrightarrow> p \<noteq> CHR ''%'' \<and> p \<noteq> CHR ''_''"
  by (auto simp: is_digit_def)

lemma digit_code: "is_digit p \<Longrightarrow> (of_char p :: nat) < 65"
  by (auto simp: is_digit_def)

lemma upper_eq_digit:
  assumes "is_digit p" and "sql_upper c = p"
  shows "c = p"
proof (cases "97 \<le> (of_char c :: nat) \<and> (of_char c :: nat) \<le> 122")
  case True
  then have "p = char_of ((of_char c :: nat) - 32)"
    using assms(2) by (auto simp: sql_upper_def Let_def)
  then have "(of_char p :: nat) = ((of_char c :: nat) - 32) mod 256"
    by simp
  moreover have "((of_char c :: nat) - 32) mod 256 = of_char c - 32"
    using True by (intro mod_less) arith
  ultimately have "65 \<le> (of_char p :: nat)"
    using True by arith
  with digit_code [OF assms(1)] show ?thesis
    by simp
next
  case False
  then show ?thesis
    using assms(2) by (auto simp: sql_upper_def Let_def)
qed

lemma sql_like_digits: "\<forall>c\<in>set d. is_digit c \<Longrightarrow> sql_like d s = (s = d)"
proof (induction d arbitrary: s)
  case Nil
  then show ?case by simp
next
  case (Cons p ps)
  then have p: "is_digit p" and ps: "\<forall>c\<in>set ps. is_digit c"
    by simp_all
  show ?case
  proof (cases s)
    case Nil
    then show ?thesis using digit_not_wild [OF p] by simp
  next
    case (Cons c cs)
    then show ?thesis
      using digit_not_wild [OF p] digit_upper [OF p] upper_eq_digit [OF p] Cons.IH [OF ps]
      by auto
  qed
qed

lemma sql_like_suffix:
  assumes "\<forall>c\<in>set d. is_digit c"
  shows "sql_like (CHR ''%'' # d) s = suffix d s"
proof (induction s)
  case Nil
  then show ?case using sql_like_digits [OF assms] by auto
next
  case (Cons c cs)
  then show ?case
    using sql_like_digits [OF assms] by (auto simp: suffix_Cons)
qed

lemma last10: "py_slice_from ph (-10) = drop (length ph - 10) ph"
proof -
  have "nat (max 0 (int (length ph) - 10)) = length ph - 10"
    by arith
  then show ?thesis
    by (simp add: py_slice_from_def py_bound_def)
qed

lemma query_group_ids_filter:
  "query_group_ids db phone =
     (let r = filter (\<lambda>r. suffix (drop (length (strip phone) - 10) (strip phone)) (strip (fst r)))
                (group_member db)
      in if r \<noteq> [] then Some (map snd r) else None)"
proof -
  have "\<forall>c\<in>set (drop (length (strip phone) - 10) (strip phone)). is_digit c"
    using strip_all_digits by (meson in_set_dropD)
  then show ?thesis
    by (simp add: query_group_ids_def last10 sql_like_suffix Let_def)
qed

section \<open>Formatting for display\<close>

lemma us_format_11:
  "length d = 11 \<Longrightarrow>
   us_format d = ''('' @ take 3 (drop 1 d) @ '') '' @ take 3 (drop 4 d) @ ''-'' @ drop 7 d"
  by (simp add: us_format_def py_slice_def py_slice_from_def py_bound_def)

lemma us_format_10:
  "length d = 10 \<Longrightarrow>
   us_format d = ''('' @ take 3 d @ '') '' @ take 3 (drop 3 d) @ ''-'' @ drop 6 d"
  by (simp add: us_format_def py_slice_def py_slice_from_def py_bound_def)

text \<open>
  Claim C5 as stated fails: with more than 11 digits (or 11 digits and no leading 1) no
  branch of \<open>format_phone\<close> reassigns \<^verbatim>\<open>phone\<close>, so the argument comes back with its
  punctuation, not the stripped digits.
\<close>

theorem format_phone_otherwise_counterexample:
  "11 < length (strip ''+44 7911 123456'') \<and>
   format_phone ''+44 7911 123456'' \<noteq> strip ''+44 7911 123456''"
  by (simp add: format_phone_def strip_def is_digit_def)

text \<open>
  Claim C5, amended: for every input whose stripped digit count is more than 11, or exactly
  11 without a leading 1, \<open>format_phone\<close> returns the input unchanged (``leave as is'').
\<close>

theorem format_phone_otherwise:
  "11 < length (strip phone) \<or> (length (strip phone) = 11 \<and> strip phone ! 0 \<noteq> CHR ''1'')
     \<Longrightarrow> format_phone phone = phone"
  by (auto simp: format_phone_def Let_def)

theorem format_phone_otherwise_witness:
  "(11 < length (strip ''+44 7911 123456'') \<or>
     (length (strip ''+44 7911 123456'') = 11 \<and> strip ''+44 7911 123456'' ! 0 \<noteq> CHR ''1''))
   \<and> format_phone ''+44 7911 123456'' = ''+44 7911 123456''"
proof -
  have h: "11 < length (strip ''+44 7911 123456'')"
    by (simp add: strip_def is_digit_def)
  then show ?thesis
    using format_phone_otherwise [of "''+44 7911 123456''"] by blast
qed

text \<open>
  Claim C6: for every digit-only string \<open>d\<close> of length 11 whose first character is 1,
  \<open>format_phone d\<close> equals \<open>format_phone\<close> of \<^verbatim>\<open>d[1:]\<close>, and it is the last ten digits
  laid out as \<^verbatim>\<open>(AAA) BBB-CCCC\<close>.
\<close>

theorem format_phone_country_code:
  assumes "length d = 11" and "\<forall>c\<in>set d. is_digit c" and "d ! 0 = CHR ''1''"
  shows "format_phone d = format_phone (py_slice_from d 1)
       \<and> format_phone d = ''('' @ take 3 (drop 1 d) @ '') '' @ take 3 (drop 4 d) @ ''-'' @ drop 7 d"
proof -
  have t: "py_slice_from d 1 = drop 1 d"
    using assms(1) by (simp add: py_slice_from_def py_bound_def)
  have "\<forall>c\<in>set (drop 1 d). is_digit c"
    using assms(2) by (meson in_set_dropD)
  then have s: "strip (drop 1 d) = drop 1 d" and s': "strip d = d"
    using assms(2) by (simp_all add: strip_digits)
  have "format_phone d = us_format d"
    using assms by (simp add: format_phone_def s')
  moreover have "format_phone (drop 1 d) = us_format (drop 1 d)"
    using assms(1) s by (simp add: format_phone_def)
  ultimately show ?thesis
    using assms(1) by (simp add: t us_format_11 us_format_10)
qed

theorem format_phone_country_code_witness:
  "length ''15555551212'' = 11 \<and> list_all is_digit ''15555551212''
   \<and> ''15555551212'' ! 0 = CHR ''1''
   \<and> format_phone ''15555551212'' = format_phone (py_slice_from ''15555551212'' 1)
   \<and> format_phone ''15555551212'' = ''(555) 555-1212''"
proof -
  have h1: "length ''15555551212'' = 11"
    by simp
  have h2: "\<forall>c\<in>set ''15555551212''. is_digit c"
    by (simp add: is_digit_def)
  have h3: "''15555551212'' ! 0 = CHR ''1''"
    by simp
  note r = format_phone_country_code [OF h1 h2 h3]
  from r have c1: "format_phone ''15555551212'' = format_phone (py_slice_from ''15555551212'' 1)"
    by (rule conjunct1)
  from r have "format_phone ''15555551212'' =
      ''('' @ take 3 (drop 1 ''15555551212'') @ '') '' @ take 3 (drop 4 ''15555551212'')
        @ ''-'' @ drop 7 ''15555551212''"
    by (rule conjunct2)
  then have c2: "format_phone ''15555551212'' = ''(555) 555-1212''"
    by simp
  from h2 have h2': "list_all is_digit ''15555551212''"
    by (simp only: list_all_iff)
  from h1 h2' h3 c1 c2 show ?thesis
    by blast
qed

section \<open>Group resolution\<close>





section \<open>Query planning\<close>





lemma no_match_example: "query_group_ids example_store ''99999'' = None"
  by (simp add: query_group_ids_filter example_store_def strip_def is_digit_def suffix_def)



section \<open>Row order\<close>



lemma py_join_Cons: "py_join sep (x # xs) = x @ concat (map (\<lambda>y. sep @ y) xs)"
  by (induction xs arbitrary: x) simp_all
















section \<open>The human renderer on the empty list\<close>

text \<open>
  Claim C9: \<open>msgs_human\<close> raises \<^verbatim>\<open>ValueError\<close> on the empty message list (the
  maximum of an empty sequence) and returns an output exactly for the non-empty lists;
  a cursor whose rows are all skipped yields that empty list.
\<close>

theorem msgs_human_empty_raises:
  "msgs_human [] header = Inl ValueError
   \<and> ((\<exists>out. msgs_human messages header = Inr out) \<longleftrightarrow> messages \<noteq> [])
   \<and> ((\<forall>r\<in>set rows. skip_row r) \<longrightarrow>
        classify_rows convert_date fmt me aliases [] rows = Inr [])"
proof (intro conjI impI)
  show e: "msgs_human [] header = Inl ValueError"
    by (simp add: msgs_human_def)
  show "(\<exists>out. msgs_human messages header = Inr out) \<longleftrightarrow> messages \<noteq> []"
  proof (cases messages)
    case Nil
    then show ?thesis by (simp add: msgs_human_def)
  next
    case (Cons m ms)
    then show ?thesis by (simp add: msgs_human_def Let_def)
  qed
  assume "\<forall>r\<in>set rows. skip_row r"
  then show "classify_rows convert_date fmt me aliases [] rows = Inr []"
    by (induction rows) simp_all
qed

theorem msgs_human_empty_raises_witness:
  "skip_row \<lparr>m_rowid = 3, m_date = 0, m_address = Some ''5550100'', m_text = Some ''draft'',
        m_flags = 1, m_group_id = 8\<rparr>
   \<and> classify_rows (\<lambda>d f. Some ''t'') [] ''Me'' Map.empty []
        [\<lparr>m_rowid = 3, m_date = 0, m_address = Some ''5550100'', m_text = Some ''draft'',
          m_flags = 1, m_group_id = 8\<rparr>] = Inr []
   \<and> msgs_human [] True = Inl ValueError
   \<and> (\<exists>out. msgs_human [\<lparr>r_date = ''t'', r_from = ''Me'', r_to = ''5550100'', r_text = ''yo''\<rparr>] True
          = Inr out)"
proof -
  have h: "skip_row \<lparr>m_rowid = 3, m_date = 0, m_address = Some ''5550100'',
      m_text = Some ''draft'', m_flags = 1, m_group_id = 8\<rparr>"
    by (simp add: skip_row_def)
  then have h': "\<forall>r\<in>set [\<lparr>m_rowid = 3, m_date = 0, m_address = Some ''5550100'',
      m_text = Some ''draft'', m_flags = 1, m_group_id = 8\<rparr>]. skip_row r"
    by simp
  have n: "[\<lparr>r_date = ''t'', r_from = ''Me'', r_to = ''5550100'', r_text = ''yo''\<rparr>] \<noteq> []"
    by simp
  note r = msgs_human_empty_raises [of True
      "[\<lparr>r_date = ''t'', r_from = ''Me'', r_to = ''5550100'', r_text = ''yo''\<rparr>]"
      "[\<lparr>m_rowid = 3, m_date = 0, m_address = Some ''5550100'',
      m_text = Some ''draft'', m_flags = 1, m_group_id = 8\<rparr>]" "\<lambda>d f. Some ''t''" "[]" "''Me''" Map.empty]
  from r h h' n show ?thesis
    by blast
qed

section \<open>Direction of a message\<close>

text \<open>
  Claim C3: a row that passes the skip check has an address and a text, its flag is 2 or
  3, and with the counterpart being the alias of the row's group id when the alias map
  has one and the formatted address otherwise, flag 2 gives (counterpart, identity) and
  flag 3 gives (identity, counterpart), in \<open>convert_address\<close> and in the message built
  from the row.
\<close>

theorem convert_address_direction:
  assumes "\<not> skip_row row"
  shows "\<exists>a t. m_address row = Some a \<and> m_text row = Some t \<and>
    (let other = (case aliases (m_group_id row) of Some alias \<Rightarrow> alias | None \<Rightarrow> format_phone a)
     in (m_flags row = 2 \<and> convert_address row me aliases = Inr (other, me)
           \<and> (\<forall>d. convert_date (m_date row) fmt = Some d \<longrightarrow>
                 classify_row convert_date fmt me aliases row =
                   Inr \<lparr>r_date = d, r_from = other, r_to = me, r_text = t\<rparr>))
      \<or> (m_flags row = 3 \<and> convert_address row me aliases = Inr (me, other)
           \<and> (\<forall>d. convert_date (m_date row) fmt = Some d \<longrightarrow>
                 classify_row convert_date fmt me aliases row =
                   Inr \<lparr>r_date = d, r_from = me, r_to = other, r_text = t\<rparr>)))"
proof -
  from assms obtain a t where a: "m_address row = Some a" and t: "m_text row = Some t"
    by (auto simp: skip_row_def truthy_def split: if_splits option.splits)
  from assms have "m_flags row = 2 \<or> m_flags row = 3"
    by (auto simp: skip_row_def split: if_splits)
  with a t show ?thesis
    by (auto simp: convert_address_def classify_row_def Let_def)
qed

theorem convert_address_direction_witness:
  "\<not> skip_row \<lparr>m_rowid = 1, m_date = 0, m_address = Some ''5555551212'', m_text = Some ''hi'',
          m_flags = 2, m_group_id = 7\<rparr>
   \<and> convert_address \<lparr>m_rowid = 1, m_date = 0, m_address = Some ''5555551212'',
          m_text = Some ''hi'', m_flags = 2, m_group_id = 7\<rparr> ''Me'' (Map.empty(7 \<mapsto> ''Alice''))
       = Inr (''Alice'', ''Me'')
   \<and> convert_address \<lparr>m_rowid = 1, m_date = 0, m_address = Some ''5555551212'',
          m_text = Some ''hi'', m_flags = 2, m_group_id = 7\<rparr> ''Me'' Map.empty
       = Inr (''(555) 555-1212'', ''Me'')"
proof -
  let ?row = "\<lparr>m_rowid = 1, m_date = 0, m_address = Some ''5555551212'', m_text = Some ''hi'',
          m_flags = 2, m_group_id = 7\<rparr>"
  have h: "\<not> skip_row ?row"
    by (simp add: skip_row_def truthy_def)
  have f: "format_phone ''5555551212'' = ''(555) 555-1212''"
    by (simp add: format_phone_def strip_def is_digit_def us_format_10)
  from convert_address_direction [OF h, of "Map.empty(7 \<mapsto> ''Alice'')" "''Me''" "\<lambda>d f. Some ''t''" "[]"]
  have 1: "convert_address ?row ''Me'' (Map.empty(7 \<mapsto> ''Alice'')) = Inr (''Alice'', ''Me'')"
    by (simp add: Let_def)
  from convert_address_direction [OF h, of Map.empty "''Me''" "\<lambda>d f. Some ''t''" "[]"]
  have 2: "convert_address ?row ''Me'' Map.empty = Inr (''(555) 555-1212'', ''Me'')"
    by (simp add: Let_def f)
  from h 1 2 show ?thesis
    by blast
qed

lemma classify_rows_unbound:
  "classify_rows cd fmt me aliases acc rows \<noteq> Inl UnboundLocalError"
proof (induction rows arbitrary: acc)
  case Nil
  then show ?case by simp
next
  case (Cons row rows)
  have "classify_row cd fmt me aliases row \<noteq> Inl UnboundLocalError" if "\<not> skip_row row"
    using that
    by (auto simp: classify_row_def convert_address_def skip_row_def Let_def
        split: option.splits if_splits)
  with Cons show ?case
    by (auto split: sum.splits)
qed

lemma alias_loop_unbound: "alias_loop db m as \<noteq> Inl UnboundLocalError"
  by (induction as arbitrary: m) (auto split: option.splits)

text \<open>
  Claim C4: a row that is not skipped has flag 2 or 3, so \<open>convert_address\<close> binds both
  results for it; the unbound branch is exactly the rows with an address and another
  flag, all of which the skip check removes, and neither the loop over the cursor nor the
  whole resolution ever ends in \<^verbatim>\<open>UnboundLocalError\<close>.
\<close>

theorem direction_branch_unreachable:
  "(\<not> skip_row row \<longrightarrow>
      (m_flags row = 2 \<or> m_flags row = 3) \<and> convert_address row me aliases \<noteq> Inl UnboundLocalError)
   \<and> ((convert_address row me aliases = Inl UnboundLocalError) \<longleftrightarrow>
        (m_address row \<noteq> None \<and> m_flags row \<noteq> 2 \<and> m_flags row \<noteq> 3))
   \<and> classify_rows convert_date fmt me aliases acc rows \<noteq> Inl UnboundLocalError
   \<and> resolve_messages convert_date db alias_args numbers fmt me \<noteq> Inl UnboundLocalError"
proof (intro conjI impI)
  assume "\<not> skip_row row"
  then show "m_flags row = 2 \<or> m_flags row = 3"
    by (auto simp: skip_row_def split: if_splits)
  then show "convert_address row me aliases \<noteq> Inl UnboundLocalError"
    by (auto simp: convert_address_def Let_def split: option.splits)
next
  show "(convert_address row me aliases = Inl UnboundLocalError) \<longleftrightarrow>
        (m_address row \<noteq> None \<and> m_flags row \<noteq> 2 \<and> m_flags row \<noteq> 3)"
    by (auto simp: convert_address_def Let_def split: option.splits)
  show "classify_rows convert_date fmt me aliases acc rows \<noteq> Inl UnboundLocalError"
    by (rule classify_rows_unbound)
  show "resolve_messages convert_date db alias_args numbers fmt me \<noteq> Inl UnboundLocalError"
    using alias_loop_unbound [of db Map.empty] classify_rows_unbound
    by (auto simp: resolve_messages_def alias_map_def execute_def build_msg_query_def Let_def
        split: sum.splits option.splits prod.splits if_splits)
qed

theorem direction_branch_unreachable_witness:
  "\<not> skip_row \<lparr>m_rowid = 1, m_date = 0, m_address = Some ''5555551212'', m_text = Some ''hi'',
          m_flags = 2, m_group_id = 7\<rparr>
   \<and> convert_address \<lparr>m_rowid = 1, m_date = 0, m_address = Some ''5555551212'',
          m_text = Some ''hi'', m_flags = 2, m_group_id = 7\<rparr> ''Me'' Map.empty
       \<noteq> Inl UnboundLocalError
   \<and> skip_row \<lparr>m_rowid = 3, m_date = 0, m_address = Some ''5550100'', m_text = Some ''draft'',
        m_flags = 1, m_group_id = 8\<rparr>
   \<and> convert_address \<lparr>m_rowid = 3, m_date = 0, m_address = Some ''5550100'',
        m_text = Some ''draft'', m_flags = 1, m_group_id = 8\<rparr> ''Me'' Map.empty
       = Inl UnboundLocalError"
proof -
  let ?row = "\<lparr>m_rowid = 1, m_date = 0, m_address = Some ''5555551212'', m_text = Some ''hi'',
          m_flags = 2, m_group_id = 7\<rparr>"
  let ?draft = "\<lparr>m_rowid = 3, m_date = 0, m_address = Some ''5550100'', m_text = Some ''draft'',
        m_flags = 1, m_group_id = 8\<rparr>"
  have h: "\<not> skip_row ?row"
    by (simp add: skip_row_def truthy_def)
  have s: "skip_row ?draft"
    by (simp add: skip_row_def)
  from direction_branch_unreachable [of ?row "''Me''" Map.empty] h
  have 1: "convert_address ?row ''Me'' Map.empty \<noteq> Inl UnboundLocalError"
    by blast
  have "m_address ?draft \<noteq> None \<and> m_flags ?draft \<noteq> 2 \<and> m_flags ?draft \<noteq> 3"
    by simp
  with direction_branch_unreachable [of ?draft "''Me''" Map.empty]
  have 2: "convert_address ?draft ''Me'' Map.empty = Inl UnboundLocalError"
    by blast
  from h 1 s 2 show ?thesis
    by blast
qed

section \<open>The alias map\<close>

lemma assign_all_apply:
  "assign_all m gids name k = (if k \<in> set gids then Some name else m k)"
  by (induction gids arbitrary: m) auto

lemma assign_all_dom: "dom (assign_all m gids name) = dom m \<union> set gids"
  by (auto simp: assign_all_apply dom_def)

lemma alias_loop_append:
  "alias_loop db m (xs @ ys) =
     (case alias_loop db m xs of Inl e \<Rightarrow> Inl e | Inr m' \<Rightarrow> alias_loop db m' ys)"
  by (induction xs arbitrary: m) (auto split: option.splits)

lemma alias_loop_dom:
  "\<forall>a\<in>set as. alias_match a \<noteq> None \<Longrightarrow>
   \<exists>m'. alias_loop db m as = Inr m' \<and>
     dom m' = dom m \<union> (\<Union>a\<in>set as. case alias_match a of None \<Rightarrow> {}
                          | Some (number, name) \<Rightarrow> group_set (query_group_ids db number))"
proof (induction as arbitrary: m)
  case Nil
  then show ?case by simp
next
  case (Cons a as)
  then obtain number name where a: "alias_match a = Some (number, name)"
    by auto
  from Cons.prems have rest: "\<forall>a\<in>set as. alias_match a \<noteq> None"
    by simp
  show ?case
  proof (cases "query_group_ids db number")
    case None
    with a Cons.IH [OF rest, of m] show ?thesis
      by (auto simp: group_set_def)
  next
    case (Some gids)
    with a Cons.IH [OF rest, of "assign_all m gids name"] show ?thesis
      by (auto simp: group_set_def assign_all_dom)
  qed
qed

lemma validate_alias_list_match:
  "validate_alias_list as = Inr () \<Longrightarrow> \<forall>a\<in>set as. alias_match a \<noteq> None"
  by (induction as) (auto split: option.splits if_splits)

lemma alias_loop_unresolved:
  "alias_match a = Some (number, name) \<Longrightarrow> query_group_ids db number = None \<Longrightarrow>
   alias_loop db m (xs @ a # ys) = alias_loop db m (xs @ ys)"
  by (simp add: alias_loop_append split: sum.splits)

lemma example_alias_alice: "alias_match ''5555551212=Alice'' = Some (''5555551212'', ''Alice'')"
  by (simp add: alias_match_def)

lemma example_alias_bob: "alias_match ''(555) 555-1212=Bob'' = Some (''(555) 555-1212'', ''Bob'')"
  by (simp add: alias_match_def)

lemma example_alias_carol: "alias_match ''5550100=Carol'' = Some (''5550100'', ''Carol'')"
  by (simp add: alias_match_def)

lemma example_alias_nobody: "alias_match ''99999=Nobody'' = Some (''99999'', ''Nobody'')"
  by (simp add: alias_match_def)

lemma example_groups_plain: "query_group_ids example_store ''5555551212'' = Some [7, 7, 7]"
  by (simp add: query_group_ids_filter example_store_def strip_def is_digit_def suffix_def)

lemma example_groups_punctuated: "query_group_ids example_store ''(555) 555-1212'' = Some [7, 7, 7]"
  by (simp add: query_group_ids_filter example_store_def strip_def is_digit_def suffix_def)

lemma example_groups_short: "query_group_ids example_store ''5550100'' = Some [8]"
  by (simp add: query_group_ids_filter example_store_def strip_def is_digit_def suffix_def)

text \<open>
  Claim C7: for a list of aliases that passes \<open>validate_aliases\<close>, \<open>alias_map\<close> returns a
  map whose keys are exactly the group ids the numbers of the pairs resolve to, so every
  key comes from a successful resolution of some pair's number; a pair whose number
  resolves to no group can be left out of the list without changing the result.
\<close>

theorem alias_map_keys_resolved:
  assumes "validate_aliases (Some as) = Inr ()"
  shows "\<exists>m. alias_map db (Some as) = Inr m
     \<and> dom m = (\<Union>a\<in>set as. case alias_match a of None \<Rightarrow> {}
                  | Some (number, name) \<Rightarrow> group_set (query_group_ids db number))
     \<and> (\<forall>gid\<in>dom m. \<exists>a\<in>set as. \<exists>number name group_ids.
           alias_match a = Some (number, name) \<and> query_group_ids db number = Some group_ids
           \<and> gid \<in> set group_ids)
     \<and> (\<forall>xs a ys number name. as = xs @ a # ys \<and> alias_match a = Some (number, name)
           \<and> query_group_ids db number = None \<longrightarrow>
           alias_map db (Some as) = alias_map db (Some (xs @ ys)))"
proof -
  from assms have v: "\<forall>a\<in>set as. alias_match a \<noteq> None"
    by (simp add: validate_aliases_def validate_alias_list_match)
  from alias_loop_dom [OF v, of db Map.empty] obtain m where m: "alias_loop db Map.empty as = Inr m"
    and d: "dom m = (\<Union>a\<in>set as. case alias_match a of None \<Rightarrow> {}
                  | Some (number, name) \<Rightarrow> group_set (query_group_ids db number))"
    by auto
  have k: "\<exists>a\<in>set as. \<exists>number name group_ids.
           alias_match a = Some (number, name) \<and> query_group_ids db number = Some group_ids
           \<and> gid \<in> set group_ids" if "gid \<in> dom m" for gid
  proof -
    from that d obtain a where a: "a \<in> set as"
      and g: "gid \<in> (case alias_match a of None \<Rightarrow> {}
                  | Some (number, name) \<Rightarrow> group_set (query_group_ids db number))"
      by auto
    from g obtain number name where n: "alias_match a = Some (number, name)"
      and g': "gid \<in> group_set (query_group_ids db number)"
      by (cases "alias_match a") auto
    from g' obtain group_ids where "query_group_ids db number = Some group_ids"
      and "gid \<in> set group_ids"
      by (cases "query_group_ids db number") (auto simp: group_set_def)
    with a n show ?thesis
      by blast
  qed
  have u: "alias_map db (Some as) = alias_map db (Some (xs @ ys))"
    if "as = xs @ a # ys \<and> alias_match a = Some (number, name)
           \<and> query_group_ids db number = None" for xs a ys number name
    using that by (simp add: alias_map_def alias_loop_unresolved)
  have r: "alias_map db (Some as) = Inr m"
    using m by (simp add: alias_map_def)
  show ?thesis
  proof (intro exI conjI ballI allI impI)
    show "alias_map db (Some as) = Inr m"
      by (rule r)
    show "dom m = (\<Union>a\<in>set as. case alias_match a of None \<Rightarrow> {}
                  | Some (number, name) \<Rightarrow> group_set (query_group_ids db number))"
      by (rule d)
    show "\<exists>a\<in>set as. \<exists>number name group_ids.
           alias_match a = Some (number, name) \<and> query_group_ids db number = Some group_ids
           \<and> gid \<in> set group_ids" if "gid \<in> dom m" for gid
      using that by (rule k)
    show "alias_map db (Some as) = alias_map db (Some (xs @ ys))"
      if "as = xs @ a # ys \<and> alias_match a = Some (number, name)
           \<and> query_group_ids db number = None" for xs a ys number name
      using that by (rule u)
  qed
qed

theorem alias_map_keys_resolved_witness:
  "validate_aliases (Some [''5555551212=Alice'', ''99999=Nobody'']) = Inr ()
   \<and> (\<exists>m. alias_map example_store (Some [''5555551212=Alice'', ''99999=Nobody'']) = Inr m
          \<and> dom m = {7})
   \<and> alias_map example_store (Some [''5555551212=Alice'', ''99999=Nobody''])
       = alias_map example_store (Some [''5555551212=Alice''])"
proof -
  have h: "validate_aliases (Some [''5555551212=Alice'', ''99999=Nobody'']) = Inr ()"
    by (simp add: validate_aliases_def example_alias_alice example_alias_nobody valid_phone_def
        strip_def is_digit_def)
  from alias_map_keys_resolved [OF h, of example_store]
  obtain m where m: "alias_map example_store (Some [''5555551212=Alice'', ''99999=Nobody'']) = Inr m"
    and d: "dom m = (\<Union>a\<in>set [''5555551212=Alice'', ''99999=Nobody''].
              case alias_match a of None \<Rightarrow> {}
              | Some (number, name) \<Rightarrow> group_set (query_group_ids example_store number))"
    and u: "\<forall>xs a ys number name.
           [''5555551212=Alice'', ''99999=Nobody''] = xs @ a # ys
           \<and> alias_match a = Some (number, name)
           \<and> query_group_ids example_store number = None \<longrightarrow>
           alias_map example_store (Some [''5555551212=Alice'', ''99999=Nobody''])
             = alias_map example_store (Some (xs @ ys))"
    by blast
  from d have d': "dom m = {7}"
    by (simp add: example_alias_alice example_alias_nobody example_groups_plain no_match_example
        group_set_def)
  from u [rule_format, of "[''5555551212=Alice'']" "''99999=Nobody''" "[]" "''99999''" "''Nobody''"]
  have "alias_map example_store (Some [''5555551212=Alice'', ''99999=Nobody''])
       = alias_map example_store (Some [''5555551212=Alice''])"
    by (simp add: example_alias_nobody no_match_example)
  with h m d' show ?thesis
    by blast
qed

lemma alias_loop_keeps:
  "\<forall>b\<in>set ys. \<exists>n nm. alias_match b = Some (n, nm) \<and> gid \<notin> group_set (query_group_ids db n) \<Longrightarrow>
   \<exists>m'. alias_loop db m ys = Inr m' \<and> m' gid = m gid"
proof (induction ys arbitrary: m)
  case Nil
  then show ?case by simp
next
  case (Cons b ys)
  then obtain n nm where b: "alias_match b = Some (n, nm)"
    and g: "gid \<notin> group_set (query_group_ids db n)"
    by auto
  from Cons.prems have rest: "\<forall>b\<in>set ys. \<exists>n nm. alias_match b = Some (n, nm) \<and>
      gid \<notin> group_set (query_group_ids db n)"
    by simp
  show ?case
  proof (cases "query_group_ids db n")
    case None
    with b Cons.IH [OF rest, of m] show ?thesis
      by simp
  next
    case (Some gids)
    with g have "gid \<notin> set gids"
      by (simp add: group_set_def)
    then have "assign_all m gids nm gid = m gid"
      by (simp add: assign_all_apply)
    with Some b Cons.IH [OF rest, of "assign_all m gids nm"] show ?thesis
      by simp
  qed
qed

lemma alias_loop_total:
  "\<forall>a\<in>set as. alias_match a \<noteq> None \<Longrightarrow> \<exists>m'. alias_loop db m as = Inr m'"
  using alias_loop_dom by blast

text \<open>
  Claim C10: when a pair resolves to a group id and no later pair of the list does, the
  map gives that group id the name of this pair, whatever the earlier pairs assigned:
  the last pair that resolves to a group id wins.
\<close>

theorem alias_map_last_wins:
  assumes "\<forall>b\<in>set xs. alias_match b \<noteq> None"
    and "alias_match a = Some (number, name)"
    and "gid \<in> group_set (query_group_ids db number)"
    and "\<forall>b\<in>set ys. \<exists>n nm. alias_match b = Some (n, nm) \<and> gid \<notin> group_set (query_group_ids db n)"
  shows "\<exists>m. alias_map db (Some (xs @ a # ys)) = Inr m \<and> m gid = Some name"
proof -
  from alias_loop_total [OF assms(1)] obtain m1 where m1: "alias_loop db Map.empty xs = Inr m1"
    by blast
  from assms(3) obtain gids where q: "query_group_ids db number = Some gids" and "gid \<in> set gids"
    by (cases "query_group_ids db number") (auto simp: group_set_def)
  then have "assign_all m1 gids name gid = Some name"
    by (simp add: assign_all_apply)
  with alias_loop_keeps [OF assms(4), of "assign_all m1 gids name"]
  obtain m where "alias_loop db (assign_all m1 gids name) ys = Inr m" and "m gid = Some name"
    by auto
  with m1 q assms(2) show ?thesis
    by (simp add: alias_map_def alias_loop_append)
qed

theorem alias_map_last_wins_witness:
  "\<exists>m. alias_map example_store
          (Some ([''5555551212=Alice''] @ ''(555) 555-1212=Bob'' # [''5550100=Carol''])) = Inr m
       \<and> m 7 = Some ''Bob''"
proof -
  have h1: "\<forall>b\<in>set [''5555551212=Alice'']. alias_match b \<noteq> None"
    by (simp add: example_alias_alice)
  have h3: "7 \<in> group_set (query_group_ids example_store ''(555) 555-1212'')"
    by (simp add: example_groups_punctuated group_set_def)
  have h4: "\<forall>b\<in>set [''5550100=Carol'']. \<exists>n nm. alias_match b = Some (n, nm) \<and>
      7 \<notin> group_set (query_group_ids example_store n)"
    by (simp add: example_alias_carol example_groups_short group_set_def)
  from alias_map_last_wins [OF h1 example_alias_bob h3 h4] show ?thesis .
qed

end
